theory Spec2Isabelle
  imports Main
begin

section \<open>Blaze.Var: a reactive variable on top of Deps\<close>

text \<open>
  This theory embeds \<^verbatim>\<open>packages/blaze/var.js\<close>: the constructor \<^verbatim>\<open>Blaze.Var\<close> and the
  methods \<^verbatim>\<open>get\<close>, \<^verbatim>\<open>set\<close> and \<^verbatim>\<open>toString\<close> of its prototype. A Var object is a record
  of its five fields; the reactive runtime it talks to (\<^verbatim>\<open>Deps\<close>, and the current
  controller of \<^verbatim>\<open>Blaze\<close>) is a second record. Every method takes the pair of both and
  returns the pair as the call leaves it, together with either the returned value or the
  exception thrown.
\<close>

subsection \<open>JavaScript values\<close>

text \<open>
  Numbers are the doubles that matter for \<^verbatim>\<open>===\<close>: the integers, negative zero, and NaN,
  the one value that is not strictly equal to itself. An object is a reference (its
  identity, a number) together with its own data properties; functions and arrays stored
  as values are objects too. Strict equality on objects compares the identity only.
\<close>

datatype jsnum = NaN | NegZero | Finite int

datatype jsval =
    JSUndefined
  | JSNull
  | JSBoolean bool
  | JSNumber jsnum
  | JSString string
  | JSObject nat "(string \<times> jsval) list"

fun number_equals :: "jsnum \<Rightarrow> jsnum \<Rightarrow> bool" where
  "number_equals NaN _ = False"
| "number_equals _ NaN = False"
| "number_equals NegZero NegZero = True"
| "number_equals NegZero (Finite j) = (j = 0)"
| "number_equals (Finite i) NegZero = (i = 0)"
| "number_equals (Finite i) (Finite j) = (i = j)"

text \<open>The operator \<^verbatim>\<open>===\<close>.\<close>

fun strict_equals :: "jsval \<Rightarrow> jsval \<Rightarrow> bool" where
  "strict_equals JSUndefined JSUndefined = True"
| "strict_equals JSNull JSNull = True"
| "strict_equals (JSBoolean a) (JSBoolean b) = (a = b)"
| "strict_equals (JSNumber a) (JSNumber b) = number_equals a b"
| "strict_equals (JSString a) (JSString b) = (a = b)"
| "strict_equals (JSObject a _) (JSObject b _) = (a = b)"
| "strict_equals _ _ = False"

text \<open>What a condition takes as true (the language's ToBoolean).\<close>

fun truthy :: "jsval \<Rightarrow> bool" where
  "truthy JSUndefined = False"
| "truthy JSNull = False"
| "truthy (JSBoolean b) = b"
| "truthy (JSNumber NaN) = False"
| "truthy (JSNumber NegZero) = False"
| "truthy (JSNumber (Finite i)) = (i \<noteq> 0)"
| "truthy (JSString s) = (s \<noteq> [])"
| "truthy (JSObject _ _) = True"

text \<open>
  An exception is either an \<^verbatim>\<open>Error\<close> object created by this file, identified by its
  message, or whatever value a user function threw.
\<close>

datatype error = Error string | Thrown jsval

subsection \<open>The runtime: Deps and the current controller\<close>

type_synonym comp_id = nat
type_synonym controller = jsval
type_synonym fn_id = nat

text \<open>
  A function handed to \<^verbatim>\<open>Deps.autorun\<close>, as the runtime keeps it: the code together with
  the variables it closes over. This file hands over one function, the
  \<^verbatim>\<open>function (c) { ... }\<close> of the constructor, which closes over \<^verbatim>\<open>controller\<close> and
  \<^verbatim>\<open>initializer\<close> (and over \<^verbatim>\<open>self\<close>, the Var of the state). A function value is a reference;
  \<open>fn_id\<close> names the initializer function.
\<close>

datatype closure = VarAutorun controller fn_id

text \<open>
  Modelled from the spec: the package \<^verbatim>\<open>Deps\<close> (the TrackingEngine) and the ambient
  context of \<^verbatim>\<open>Blaze\<close> are not part of this file. The record holds what the spec's
  interface speaks of: the computation that is running now, if any
  (\<^verbatim>\<open>Deps.currentComputation\<close>), the ambient context (\<^verbatim>\<open>Blaze.currentController\<close>), the
  computations created so far with the computation each one is nested under and with the
  function each one was created with (which it runs again), the computations that have
  been invalidated, and the computations marked as owned by a Var.
\<close>

record engine =
  currentComputation :: "comp_id option"
  currentController :: controller
  nextId :: comp_id
  parent :: "comp_id \<rightharpoonup> comp_id option"
  body :: "comp_id \<rightharpoonup> closure"
  invalidated :: "comp_id set"
  wrapped :: "comp_id set"

text \<open>
  Modelled from the spec: \<^verbatim>\<open>Deps.active\<close> (\<^verbatim>\<open>isComputationActive\<close>), true exactly while a
  computation is running.
\<close>

definition Deps_active :: "engine \<Rightarrow> bool" where
  "Deps_active e = (currentComputation e \<noteq> None)"

text \<open>
  Modelled from the spec: \<^verbatim>\<open>Deps.Dependency\<close> (the DependencySource), the registry of the
  computations that have read one Var.
\<close>

record Dependency =
  dependents :: "comp_id set"

text \<open>Modelled from the spec: \<^verbatim>\<open>new Deps.Dependency\<close>, a registry with nobody registered.\<close>

definition Dependency_new :: Dependency where
  "Dependency_new = \<lparr>dependents = {}\<rparr>"

text \<open>
  Modelled from the spec: \<^verbatim>\<open>dep.depend()\<close> (\<^verbatim>\<open>registerDependency\<close>) registers the computation
  that is running now, and does nothing when none is; a computation is registered at most
  once.
\<close>

definition Dependency_depend :: "Dependency \<Rightarrow> engine \<Rightarrow> Dependency" where
  "Dependency_depend d e =
     (case currentComputation e of
        None \<Rightarrow> d
      | Some c \<Rightarrow> d\<lparr>dependents := insert c (dependents d)\<rparr>)"

text \<open>
  Modelled from the spec: \<^verbatim>\<open>dep.changed()\<close> (\<^verbatim>\<open>invalidateAll\<close>) invalidates every
  computation registered in the Dependency. It only signals; it re-runs nothing.
\<close>

definition Dependency_changed :: "Dependency \<Rightarrow> engine \<Rightarrow> engine" where
  "Dependency_changed d e = e\<lparr>invalidated := invalidated e \<union> dependents d\<rparr>"

subsection \<open>The Var object\<close>

text \<open>
  The fields the constructor assigns. \<^verbatim>\<open>equalsFunc\<close> is \<open>None\<close> when the argument was left
  out (or is falsy, which \<^verbatim>\<open>set\<close> treats alike); otherwise it is the user's comparator, which
  returns some value or throws (a truthy argument that cannot be called throws on every
  call). The comparator is taken to be what the documentation asks for, a function of its
  two arguments that leaves the Var and the runtime alone.
\<close>

type_synonym equals = "jsval \<Rightarrow> jsval \<Rightarrow> error + jsval"

record Var =
  equalsFunc :: "equals option"
  curValue :: jsval
  inited :: bool
  dep :: Dependency
  computation :: "comp_id option"

type_synonym state = "Var \<times> engine"

text \<open>
  \<^verbatim>\<open>Blaze.Var.prototype.set\<close>. The test \<^verbatim>\<open>this.inited && (equals ? equals(newValue, oldValue)
  : newValue === oldValue)\<close> is evaluated left to right: the comparator is called only on an
  inited Var, and an exception it throws leaves \<^verbatim>\<open>set\<close> before any assignment.
\<close>

definition Var_set :: "jsval \<Rightarrow> state \<Rightarrow> (error + unit) \<times> state" where
  "Var_set newValue s =
     (let (this, e) = s;
          equals = equalsFunc this;
          oldValue = curValue this;
          same =
            (if inited this then
               (case equals of
                  Some f \<Rightarrow>
                    (case f newValue oldValue of
                       Inl err \<Rightarrow> Inl err
                     | Inr r \<Rightarrow> Inr (truthy r))
                | None \<Rightarrow> Inr (strict_equals newValue oldValue))
             else Inr False)
      in case same of
           Inl err \<Rightarrow> (Inl err, this, e)
         | Inr b \<Rightarrow>
             if b then (Inr (), this, e)
             else (Inr (), this\<lparr>curValue := newValue\<rparr>, Dependency_changed (dep this) e))"

text \<open>\<^verbatim>\<open>Blaze.Var.prototype.get\<close>.\<close>

definition Var_get :: "state \<Rightarrow> (error + jsval) \<times> state" where
  "Var_get s =
     (let (this, e) = s;
          this' = (if Deps_active e then this\<lparr>dep := Dependency_depend (dep this) e\<rparr> else this)
      in (Inr (curValue this'), this', e))"

text \<open>
  \<^verbatim>\<open>Blaze.Var.prototype.toString\<close>. The operator \<^verbatim>\<open>+\<close> converts the value it appends to a
  string; for an object that runs the object's own \<^verbatim>\<open>valueOf\<close> or \<^verbatim>\<open>toString\<close>, which may
  throw. The conversion is the parameter \<open>str\<close>.
\<close>

definition Var_toString :: "(jsval \<Rightarrow> error + string) \<Rightarrow> state \<Rightarrow> (error + string) \<times> state" where
  "Var_toString str s =
     (case Var_get s of
        (Inl err, s') \<Rightarrow> (Inl err, s')
      | (Inr v, s') \<Rightarrow>
          (case str v of
             Inl err \<Rightarrow> (Inl err, s')
           | Inr t \<Rightarrow> (Inr (''Var{'' @ t @ ''}''), s')))"

subsection \<open>The constructor\<close>

text \<open>
  Modelled from the spec: \<^verbatim>\<open>Blaze.withCurrentController\<close> (\<^verbatim>\<open>withAmbientContext\<close>) runs
  the body with the given ambient context installed and puts the previous one back
  afterwards.
\<close>

definition Blaze_withCurrentController ::
  "controller \<Rightarrow> (state \<Rightarrow> (error + 'a) \<times> state) \<Rightarrow> state \<Rightarrow> (error + 'a) \<times> state" where
  "Blaze_withCurrentController controller func s =
     (let (v, e) = s;
          oldController = currentController e;
          (r, v', e') = func (v, e\<lparr>currentController := controller\<rparr>)
      in (r, v', e'\<lparr>currentController := oldController\<rparr>))"

text \<open>
  Modelled from the spec: \<^verbatim>\<open>Blaze._wrapAutorun\<close> marks the computation as owned by a Var; a
  hint for the runtime, with no other effect.
\<close>

definition Blaze_wrapAutorun :: "comp_id \<Rightarrow> engine \<Rightarrow> engine" where
  "Blaze_wrapAutorun c e = e\<lparr>wrapped := insert c (wrapped e)\<rparr>"

text \<open>
  The first argument of the constructor, as \<^verbatim>\<open>typeof initializer === 'function'\<close> sees it:
  a value that is not a function, or a reference to a function. What the functions of the
  program do is given by a table: a function initializer takes no argument; it runs in the
  state at the time of the call, may change it, and returns a value or throws.
\<close>

datatype initializer =
    NonFunction jsval
  | Function fn_id

type_synonym function_table = "fn_id \<Rightarrow> state \<Rightarrow> (error + jsval) \<times> state"

text \<open>
  The function the constructor hands to \<^verbatim>\<open>Deps.autorun\<close>:
  \<^verbatim>\<open>function (c) { Blaze.withCurrentController(controller, function () {
  self.set(initializer()); }); }\<close>. The call \<^verbatim>\<open>initializer()\<close> is evaluated first, then
  \<^verbatim>\<open>set\<close>.
\<close>

definition autorun_func ::
  "controller \<Rightarrow> (state \<Rightarrow> (error + jsval) \<times> state) \<Rightarrow> comp_id \<Rightarrow> state \<Rightarrow> (error + unit) \<times> state" where
  "autorun_func controller initializer c =
     Blaze_withCurrentController controller
       (\<lambda>s. case initializer s of
               (Inl err, s') \<Rightarrow> (Inl err, s')
             | (Inr v, s') \<Rightarrow> Var_set v s')"

text \<open>Calling a function the runtime keeps, with the computation as its argument.\<close>

definition call_closure :: "function_table \<Rightarrow> closure \<Rightarrow> comp_id \<Rightarrow> state \<Rightarrow> (error + unit) \<times> state" where
  "call_closure fns func c =
     (case func of VarAutorun controller n \<Rightarrow> autorun_func controller (fns n) c)"

text \<open>
  Modelled from the spec: \<^verbatim>\<open>Deps.autorun\<close> (\<^verbatim>\<open>runReactively\<close>) creates a computation nested
  under the one that is running now, keeps the function as the body of the new computation,
  calls it once immediately with the new computation as the running one, and returns the
  handle. An exception of the body propagates out of the run.
\<close>

definition Deps_autorun :: "function_table \<Rightarrow> closure \<Rightarrow> state \<Rightarrow> (error + comp_id) \<times> state" where
  "Deps_autorun fns func s =
     (let (v, e) = s;
          c = nextId e;
          outer = currentComputation e;
          (r, v', e') =
            call_closure fns func c
              (v, e\<lparr>nextId := Suc c, parent := (parent e)(c \<mapsto> outer),
                     body := (body e)(c \<mapsto> func), currentComputation := Some c\<rparr>)
      in (case r of Inl err \<Rightarrow> Inl err | Inr _ \<Rightarrow> Inr c, v', e'\<lparr>currentComputation := outer\<rparr>))"

text \<open>
  Modelled from the spec: the other half of \<^verbatim>\<open>runReactively\<close>, "and again whenever any
  dependency it registered during the last run is invalidated". When computation \<open>c\<close> has
  been invalidated, the runtime calls the body it keeps for \<open>c\<close> again, with \<open>c\<close> as the
  running computation; that run answers the invalidation. For a computation that has not
  been invalidated, or has no body, nothing is run.
\<close>

definition Computation_rerun :: "function_table \<Rightarrow> comp_id \<Rightarrow> state \<Rightarrow> (error + unit) \<times> state" where
  "Computation_rerun fns c s =
     (let (v, e) = s
      in case body e c of
           None \<Rightarrow> (Inr (), v, e)
         | Some func \<Rightarrow>
             if c \<notin> invalidated e then (Inr (), v, e)
             else
               let outer = currentComputation e;
                   (r, v', e') =
                     call_closure fns func c
                       (v, e\<lparr>invalidated := invalidated e - {c}, currentComputation := Some c\<rparr>)
               in (r, v', e'\<lparr>currentComputation := outer\<rparr>))"

text \<open>
  What \<^verbatim>\<open>this\<close> is when the body of \<^verbatim>\<open>Blaze.Var\<close> starts: the fresh instance that \<^verbatim>\<open>new\<close>
  made, or, in a plain call \<^verbatim>\<open>Blaze.Var(...)\<close>, something that is not an instance of
  \<^verbatim>\<open>Blaze.Var\<close> (the namespace object \<^verbatim>\<open>Blaze\<close>).
\<close>

datatype receiver = NewInstance | NotAnInstance

text \<open>
  \<^verbatim>\<open>Blaze.Var\<close>, in a program whose functions are \<open>fns\<close>. A plain call constructs with
  \<^verbatim>\<open>new\<close> and returns that. Otherwise the five
  fields are assigned, then the initializer is used, then \<^verbatim>\<open>inited\<close> becomes true. When the
  constructor throws, the caller gets no object.
\<close>

function Blaze_Var ::
  "function_table \<Rightarrow> receiver \<Rightarrow> initializer \<Rightarrow> equals option \<Rightarrow> engine \<Rightarrow> (error + Var) \<times> engine" where
  "Blaze_Var fns this initializer equalsFn e =
     (if this \<noteq> NewInstance then Blaze_Var fns NewInstance initializer equalsFn e
      else
        let self = \<lparr>equalsFunc = equalsFn, curValue = JSNull, inited = False,
                    dep = Dependency_new, computation = None\<rparr>
        in case initializer of
             Function n \<Rightarrow>
               if \<not> Deps_active e then
                 (Inl (Error ''Can only create a Blaze.Var(function...) inside a Computation''), e)
               else
                 let controller = currentController e
                 in (case Deps_autorun fns (VarAutorun controller n) (self, e) of
                       (Inl err, self', e') \<Rightarrow> (Inl err, e')
                     | (Inr c, self', e') \<Rightarrow>
                         (Inr (self'\<lparr>computation := Some c, inited := True\<rparr>),
                          Blaze_wrapAutorun c e'))
           | NonFunction v \<Rightarrow>
               (case Var_set v (self, e) of
                  (Inl err, self', e') \<Rightarrow> (Inl err, e')
                | (Inr _, self', e') \<Rightarrow> (Inr (self'\<lparr>inited := True\<rparr>), e')))"
  by pat_completeness auto
termination
  by (relation "measure (\<lambda>(fns, this, _). if this = NewInstance then 0 else 1)") auto

declare Blaze_Var.simps [simp del]

subsection \<open>Values for the examples\<close>

text \<open>A runtime in which no computation is running, and one in which computation 1 is.\<close>

definition idle_engine :: engine where
  "idle_engine = \<lparr>currentComputation = None, currentController = JSNull, nextId = 2,
                   parent = Map.empty, body = Map.empty, invalidated = {}, wrapped = {}\<rparr>"

definition running_engine :: engine where
  "running_engine = \<lparr>currentComputation = Some 1, currentController = JSString ''outer'',
                      nextId = 2, parent = [1 \<mapsto> None], body = Map.empty,
                      invalidated = {}, wrapped = {}\<rparr>"

text \<open>
  The object in the middle of the constructor, after the five fields are assigned and
  before \<^verbatim>\<open>inited\<close> becomes true: the Var on which the constructor calls \<^verbatim>\<open>self.set\<close>.
\<close>

definition being_constructed :: Var where
  "being_constructed = \<lparr>equalsFunc = None, curValue = JSNull, inited = False,
                         dep = Dependency_new, computation = None\<rparr>"

text \<open>A constructed Var holding \<open>x\<close> that computation 1 has read.\<close>

definition read_by_1 :: "jsval \<Rightarrow> equals option \<Rightarrow> Var" where
  "read_by_1 x eq = \<lparr>equalsFunc = eq, curValue = x, inited = True,
                      dep = \<lparr>dependents = {1}\<rparr>, computation = None\<rparr>"

text \<open>An initializer function that returns the ambient context it runs under.\<close>

definition reads_controller :: "state \<Rightarrow> (error + jsval) \<times> state" where
  "reads_controller s = (Inr (currentController (snd s)), s)"

text \<open>A program in which every function reference denotes that function.\<close>

definition reading_functions :: function_table where
  "reading_functions n = reads_controller"

text \<open>
  The comparator \<^verbatim>\<open>function (a, b) { return a.id === b.id; }\<close>. Reading \<^verbatim>\<open>.id\<close> throws a
  TypeError on \<^verbatim>\<open>undefined\<close> and \<^verbatim>\<open>null\<close>, gives \<^verbatim>\<open>undefined\<close> on the other primitive
  values, and on an object gives its property \<^verbatim>\<open>id\<close>, if it has one.
\<close>

fun property_id :: "jsval \<Rightarrow> error + jsval" where
  "property_id JSUndefined = Inl (Error ''TypeError'')"
| "property_id JSNull = Inl (Error ''TypeError'')"
| "property_id (JSObject _ props) =
     Inr (case map_of props ''id'' of None \<Rightarrow> JSUndefined | Some v \<Rightarrow> v)"
| "property_id _ = Inr JSUndefined"

definition equals_by_id :: equals where
  "equals_by_id a b =
     (case property_id a of
        Inl err \<Rightarrow> Inl err
      | Inr x \<Rightarrow>
          (case property_id b of
             Inl err \<Rightarrow> Inl err
           | Inr y \<Rightarrow> Inr (JSBoolean (strict_equals x y))))"

text \<open>The object literal \<^verbatim>\<open>{id: i, n: n}\<close>, allocated at address \<open>a\<close>.\<close>

definition id_n_object :: "nat \<Rightarrow> int \<Rightarrow> int \<Rightarrow> jsval" where
  "id_n_object a i n = JSObject a [(''id'', JSNumber (Finite i)), (''n'', JSNumber (Finite n))]"

text \<open>A comparator that always throws.\<close>

definition equals_throws :: equals where
  "equals_throws a b = Inl (Thrown (JSString ''boom''))"

text \<open>
  The string conversion on \<^verbatim>\<open>undefined\<close>, \<^verbatim>\<open>null\<close>, the booleans and the strings. Numbers
  and objects are not in this table; for them it answers as an object without conversion
  methods does, with a TypeError.
\<close>

fun string_table :: "jsval \<Rightarrow> error + string" where
  "string_table JSUndefined = Inr ''undefined''"
| "string_table JSNull = Inr ''null''"
| "string_table (JSBoolean b) = Inr (if b then ''true'' else ''false'')"
| "string_table (JSString s) = Inr s"
| "string_table _ = Inl (Error ''TypeError'')"

subsection \<open>Theorems\<close>

text \<open>
  Every Var the constructor returns is inited, and neither \<^verbatim>\<open>set\<close> nor \<^verbatim>\<open>get\<close> assigns
  \<^verbatim>\<open>inited\<close>: outside the constructor a Var is always inited.
\<close>

lemma Var_set_keeps_inited: "inited (fst (snd (Var_set newValue (this, e)))) = inited this"
  by (simp add: Var_set_def Let_def split: sum.splits option.splits)

lemma Var_get_keeps_inited: "inited (fst (snd (Var_get (this, e)))) = inited this"
  by (simp add: Var_get_def)

lemma Blaze_Var_inited:
  assumes "Blaze_Var fns this initializer equalsFn e = (Inr v, e')"
  shows "inited v"
proof -
  have "Blaze_Var fns NewInstance initializer equalsFn e = (Inr v, e')"
    using assms by (cases this) (simp_all add: Blaze_Var.simps)
  then show ?thesis
    by (cases initializer)
       (auto simp add: Blaze_Var.simps Let_def split: if_splits prod.splits sum.splits)
qed

text \<open>
  C1, as amended. Let \<open>changed\<close> hold for a call \<^verbatim>\<open>set(newValue)\<close>: the Var is not inited, or
  the comparator returns a falsy value on \<open>(newValue, oldValue)\<close>, or, without comparator,
  \<^verbatim>\<open>newValue !== oldValue\<close>. Then \<^verbatim>\<open>set\<close> returns normally, the stored value is
  \<open>newValue\<close>, every computation registered in the Dependency of the Var is invalidated
  (and no other computation is), and \<^verbatim>\<open>inited\<close> is as it was before the call: \<^verbatim>\<open>set\<close> does
  not assign it.
\<close>

theorem set_changed:
  assumes "\<not> inited this \<or>
           (case equalsFunc this of
              None \<Rightarrow> \<not> strict_equals newValue (curValue this)
            | Some f \<Rightarrow> (case f newValue (curValue this) of Inl err \<Rightarrow> False | Inr r \<Rightarrow> \<not> truthy r))"
  shows "case Var_set newValue (this, e) of
           (r, this', e') \<Rightarrow>
             r = Inr () \<and> curValue this' = newValue \<and> inited this' = inited this \<and>
             dependents (dep this) \<subseteq> invalidated e' \<and>
             invalidated e' = invalidated e \<union> dependents (dep this)"
proof -
  have "Var_set newValue (this, e) =
          (Inr (), this\<lparr>curValue := newValue\<rparr>, Dependency_changed (dep this) e)"
  proof (cases "inited this")
    case False
    then show ?thesis by (simp add: Var_set_def)
  next
    case True
    with assms show ?thesis
      by (cases "equalsFunc this") (auto simp add: Var_set_def split: sum.splits)
  qed
  then show ?thesis by (simp add: Dependency_changed_def)
qed

theorem set_changed_witness:
  "\<not> strict_equals (JSNumber (Finite 5)) (curValue (read_by_1 (JSNumber (Finite 0)) None)) \<and>
   fst (Var_set (JSNumber (Finite 5)) (read_by_1 (JSNumber (Finite 0)) None, idle_engine)) = Inr () \<and>
   curValue (fst (snd (Var_set (JSNumber (Finite 5))
      (read_by_1 (JSNumber (Finite 0)) None, idle_engine)))) = JSNumber (Finite 5) \<and>
   inited (fst (snd (Var_set (JSNumber (Finite 5))
      (read_by_1 (JSNumber (Finite 0)) None, idle_engine)))) \<and>
   invalidated (snd (snd (Var_set (JSNumber (Finite 5))
      (read_by_1 (JSNumber (Finite 0)) None, idle_engine)))) = {1}"
proof -
  have h: "\<not> inited (read_by_1 (JSNumber (Finite 0)) None) \<or>
           (case equalsFunc (read_by_1 (JSNumber (Finite 0)) None) of
              None \<Rightarrow> \<not> strict_equals (JSNumber (Finite 5))
                        (curValue (read_by_1 (JSNumber (Finite 0)) None))
            | Some f \<Rightarrow>
                (case f (JSNumber (Finite 5)) (curValue (read_by_1 (JSNumber (Finite 0)) None)) of
                   Inl err \<Rightarrow> False
                 | Inr r \<Rightarrow> \<not> truthy r))"
    by (simp add: read_by_1_def)
  from set_changed [OF h, where e = idle_engine] show ?thesis
    by (simp add: read_by_1_def idle_engine_def split: prod.splits)
qed

text \<open>
  C1, as the claim states it, fails on the Var the constructor is still building: \<open>changed\<close>
  holds because the Var is not inited, \<^verbatim>\<open>set\<close> returns normally, and \<^verbatim>\<open>inited\<close> is still false
  after the call.
\<close>

theorem set_leaves_inited_counterexample:
  "\<not> inited being_constructed \<and>
   fst (Var_set (JSNumber (Finite 1)) (being_constructed, idle_engine)) = Inr () \<and>
   \<not> inited (fst (snd (Var_set (JSNumber (Finite 1)) (being_constructed, idle_engine))))"
  by (simp add: being_constructed_def Var_set_def)

text \<open>
  C2, as amended. On an inited Var without comparator whose stored value is \<open>x\<close>, with
  \<^verbatim>\<open>x === x\<close> (every value but NaN), \<^verbatim>\<open>set(x)\<close> does nothing: the Var, its value included, and
  the runtime are left as they were, so no computation is invalidated.
\<close>

theorem set_same_noop:
  assumes "equalsFunc this = None" and "inited this" and "curValue this = x" and "strict_equals x x"
  shows "Var_set x (this, e) = (Inr (), this, e)"
  using assms by (simp add: Var_set_def)

theorem set_same_noop_witness:
  "strict_equals (JSString ''x'') (JSString ''x'') \<and>
   Var_set (JSString ''x'') (read_by_1 (JSString ''x'') None, idle_engine) =
     (Inr (), read_by_1 (JSString ''x'') None, idle_engine)"
proof -
  have h: "strict_equals (JSString ''x'') (JSString ''x'')" by simp
  from set_same_noop [of "read_by_1 (JSString ''x'') None" "JSString ''x''" idle_engine] h
  show ?thesis by (simp add: read_by_1_def)
qed

text \<open>
  C2, as the claim states it, fails for \<open>x\<close> = NaN: on a Var without comparator that
  computation 1 has read, \<^verbatim>\<open>set(NaN)\<close> stores NaN, and a second \<^verbatim>\<open>set(NaN)\<close> invalidates
  computation 1 again, because \<^verbatim>\<open>NaN === NaN\<close> is false.
\<close>

theorem set_same_noop_counterexample:
  "equalsFunc (read_by_1 (JSNumber NaN) None) = None \<and>
   fst (snd (Var_set (JSNumber NaN) (read_by_1 (JSNumber (Finite 0)) None, idle_engine))) =
     read_by_1 (JSNumber NaN) None \<and>
   curValue (read_by_1 (JSNumber NaN) None) = JSNumber NaN \<and>
   invalidated idle_engine = {} \<and>
   Var_set (JSNumber NaN) (read_by_1 (JSNumber NaN) None, idle_engine) =
     (Inr (), read_by_1 (JSNumber NaN) None, idle_engine\<lparr>invalidated := {1}\<rparr>)"
  by (simp add: read_by_1_def idle_engine_def Var_set_def Dependency_changed_def)

text \<open>
  C3. On an inited Var with a comparator that returns \<open>r\<close> on \<open>(newValue, oldValue)\<close>: when
  \<open>r\<close> is truthy, \<^verbatim>\<open>set(newValue)\<close> leaves the Var and the runtime as they were; when \<open>r\<close> is
  falsy, it stores \<open>newValue\<close> and every computation registered in the Dependency is
  invalidated.
\<close>

theorem set_custom_equals:
  assumes "inited this" and "equalsFunc this = Some f" and "f newValue (curValue this) = Inr r"
  shows "(truthy r \<longrightarrow> Var_set newValue (this, e) = (Inr (), this, e)) \<and>
         (\<not> truthy r \<longrightarrow>
            (case Var_set newValue (this, e) of
               (res, this', e') \<Rightarrow>
                 res = Inr () \<and> curValue this' = newValue \<and>
                 dependents (dep this) \<subseteq> invalidated e'))"
  using assms by (simp add: Var_set_def Dependency_changed_def)

text \<open>
  The example of the claim: the stored value is \<^verbatim>\<open>{id: 1, n: 1}\<close> and computation 1 has
  read it; \<^verbatim>\<open>set({id: 1, n: 2})\<close> changes nothing, \<^verbatim>\<open>set({id: 2, n: 2})\<close> stores the object
  and invalidates computation 1.
\<close>

theorem set_custom_equals_witness:
  "equals_by_id (id_n_object 11 1 2) (id_n_object 10 1 1) = Inr (JSBoolean True) \<and>
   Var_set (id_n_object 11 1 2) (read_by_1 (id_n_object 10 1 1) (Some equals_by_id), idle_engine) =
     (Inr (), read_by_1 (id_n_object 10 1 1) (Some equals_by_id), idle_engine) \<and>
   equals_by_id (id_n_object 12 2 2) (id_n_object 10 1 1) = Inr (JSBoolean False) \<and>
   curValue (fst (snd (Var_set (id_n_object 12 2 2)
      (read_by_1 (id_n_object 10 1 1) (Some equals_by_id), idle_engine)))) = id_n_object 12 2 2 \<and>
   1 \<in> invalidated (snd (snd (Var_set (id_n_object 12 2 2)
      (read_by_1 (id_n_object 10 1 1) (Some equals_by_id), idle_engine))))"
proof -
  let ?v = "read_by_1 (id_n_object 10 1 1) (Some equals_by_id)"
  have i: "inited ?v" and q: "equalsFunc ?v = Some equals_by_id"
    by (simp_all add: read_by_1_def)
  have same: "equals_by_id (id_n_object 11 1 2) (curValue ?v) = Inr (JSBoolean True)"
    by (simp add: read_by_1_def equals_by_id_def id_n_object_def)
  have other: "equals_by_id (id_n_object 12 2 2) (curValue ?v) = Inr (JSBoolean False)"
    by (simp add: read_by_1_def equals_by_id_def id_n_object_def)
  from set_custom_equals [OF i q same, where e = idle_engine]
       set_custom_equals [OF i q other, where e = idle_engine] same other
  show ?thesis
    by (simp add: read_by_1_def split: prod.splits)
qed

text \<open>
  C4. Called with a function as initializer while no computation is running, the
  constructor throws its Error and returns no object, whether called with \<^verbatim>\<open>new\<close> or
  without; the runtime is left as it was (no computation is created, nothing is invalidated
  or marked), and the initializer is not called.
\<close>

theorem producer_needs_computation:
  assumes "\<not> Deps_active e"
  shows "Blaze_Var fns this (Function n) equalsFn e =
           (Inl (Error ''Can only create a Blaze.Var(function...) inside a Computation''), e)"
  using assms by (cases this) (simp_all add: Blaze_Var.simps)

theorem producer_needs_computation_witness:
  "\<not> Deps_active idle_engine \<and>
   Blaze_Var reading_functions NewInstance (Function 0) None idle_engine =
     (Inl (Error ''Can only create a Blaze.Var(function...) inside a Computation''), idle_engine)"
proof -
  have h: "\<not> Deps_active idle_engine" by (simp add: Deps_active_def idle_engine_def)
  from producer_needs_computation [OF h, of reading_functions NewInstance 0 None] h
  show ?thesis by simp
qed

text \<open>
  C5. On an inited Var with a comparator, when the comparator throws on
  \<open>(newValue, oldValue)\<close>, \<^verbatim>\<open>set\<close> throws the very same exception and neither the Var (its
  value in particular) nor the runtime has changed.
\<close>

theorem set_equals_throws:
  assumes "inited this" and "equalsFunc this = Some f" and "f newValue (curValue this) = Inl err"
  shows "Var_set newValue (this, e) = (Inl err, this, e)"
  using assms by (simp add: Var_set_def)

theorem set_equals_throws_witness:
  "equals_throws (JSNumber (Finite 2)) (JSNumber (Finite 1)) = Inl (Thrown (JSString ''boom'')) \<and>
   Var_set (JSNumber (Finite 2)) (read_by_1 (JSNumber (Finite 1)) (Some equals_throws), idle_engine) =
     (Inl (Thrown (JSString ''boom'')), read_by_1 (JSNumber (Finite 1)) (Some equals_throws),
      idle_engine)"
proof -
  let ?v = "read_by_1 (JSNumber (Finite 1)) (Some equals_throws)"
  have i: "inited ?v" and q: "equalsFunc ?v = Some equals_throws"
    by (simp_all add: read_by_1_def)
  have t: "equals_throws (JSNumber (Finite 2)) (curValue ?v) = Inl (Thrown (JSString ''boom''))"
    by (simp add: equals_throws_def)
  from set_equals_throws [OF i q t, of idle_engine] t show ?thesis
    by (simp add: equals_throws_def)
qed

text \<open>
  C6. \<^verbatim>\<open>get\<close> returns the stored value and never throws. The runtime is left as it was.
  The Var is left as it was except inside its Dependency, where the computation that is
  running now, if there is one, is registered; the fields \<^verbatim>\<open>curValue\<close>, \<^verbatim>\<open>inited\<close>,
  \<^verbatim>\<open>equalsFunc\<close> and \<^verbatim>\<open>computation\<close> are unchanged and \<^verbatim>\<open>dep\<close> is still the same Dependency.
  A second \<^verbatim>\<open>get\<close> in the same run changes nothing any more.
\<close>

theorem get_frame:
  "case Var_get (this, e) of
     (r, this', e') \<Rightarrow>
       r = Inr (curValue this) \<and> e' = e \<and>
       this' = this\<lparr>dep := (dep this)\<lparr>dependents :=
                 (case currentComputation e of
                    None \<Rightarrow> dependents (dep this)
                  | Some c \<Rightarrow> insert c (dependents (dep this)))\<rparr>\<rparr> \<and>
       curValue this' = curValue this \<and> inited this' = inited this \<and>
       equalsFunc this' = equalsFunc this \<and> computation this' = computation this \<and>
       Var_get (this', e') = (r, this', e')"
  by (auto simp add: Var_get_def Deps_active_def Dependency_depend_def split: option.splits)

theorem get_frame_witness:
  "Var_get (read_by_1 (JSString ''x'') None, running_engine\<lparr>currentComputation := Some 5\<rparr>) =
     (Inr (JSString ''x''),
      (read_by_1 (JSString ''x'') None)\<lparr>dep := \<lparr>dependents = {5, 1}\<rparr>\<rparr>,
      running_engine\<lparr>currentComputation := Some 5\<rparr>) \<and>
   Var_get (read_by_1 (JSString ''x'') None, idle_engine) =
     (Inr (JSString ''x''), read_by_1 (JSString ''x'') None, idle_engine)"
  using get_frame [of "read_by_1 (JSString ''x'') None"
                      "running_engine\<lparr>currentComputation := Some 5\<rparr>"]
        get_frame [of "read_by_1 (JSString ''x'') None" idle_engine]
  by (simp add: read_by_1_def running_engine_def idle_engine_def split: prod.splits)

text \<open>
  C7. Called with a function initializer \<open>n\<close> while computation \<open>p\<close> is running, the
  constructor creates, through \<^verbatim>\<open>Deps.autorun\<close>, the computation \<open>nextId e\<close>, nested under
  \<open>p\<close>, whose body is its \<^verbatim>\<open>function (c) { ... }\<close> closed over the ambient context of the
  time of construction, \<open>currentController e\<close>. The first run, inside the constructor, calls
  the initializer once, in a state where that computation is the running one, its body is
  in place and the captured context is the ambient one, passes the value returned to
  \<^verbatim>\<open>set\<close>, and puts the previous context and running computation back; the handle becomes
  the field \<^verbatim>\<open>computation\<close> and is marked as owned by a Var. Every later run of that
  computation, in whatever state the runtime makes it, does the same: with the captured
  context installed for the duration of the run, whatever the ambient context is then.
\<close>

theorem producer_var_runs:
  assumes "currentComputation e = Some p"
  shows
    "Blaze_Var fns this (Function n) equalsFn e =
       (case fns n
               (\<lparr>equalsFunc = equalsFn, curValue = JSNull, inited = False,
                 dep = Dependency_new, computation = None\<rparr>,
                e\<lparr>nextId := Suc (nextId e),
                  parent := (parent e)(nextId e \<mapsto> Some p),
                  body := (body e)(nextId e \<mapsto> VarAutorun (currentController e) n),
                  currentComputation := Some (nextId e),
                  currentController := currentController e\<rparr>) of
          (Inl err, v', e') \<Rightarrow>
            (Inl err, e'\<lparr>currentController := currentController e,
                         currentComputation := Some p\<rparr>)
        | (Inr x, v', e') \<Rightarrow>
            (case Var_set x (v', e') of
               (Inl err, v'', e'') \<Rightarrow>
                 (Inl err, e''\<lparr>currentController := currentController e,
                               currentComputation := Some p\<rparr>)
             | (Inr u, v'', e'') \<Rightarrow>
                 (Inr (v''\<lparr>computation := Some (nextId e), inited := True\<rparr>),
                  Blaze_wrapAutorun (nextId e)
                    (e''\<lparr>currentController := currentController e,
                         currentComputation := Some p\<rparr>)))) \<and>
     (nextId e \<in> invalidated e_later \<and>
      body e_later (nextId e) = Some (VarAutorun (currentController e) n) \<longrightarrow>
        Computation_rerun fns (nextId e) (v, e_later) =
          (case fns n
                  (v, e_later\<lparr>invalidated := invalidated e_later - {nextId e},
                              currentComputation := Some (nextId e),
                              currentController := currentController e\<rparr>) of
             (Inl err, v', e') \<Rightarrow>
               (Inl err, v', e'\<lparr>currentController := currentController e_later,
                                 currentComputation := currentComputation e_later\<rparr>)
           | (Inr x, v', e') \<Rightarrow>
               (case Var_set x (v', e') of
                  (r, v'', e'') \<Rightarrow>
                    (r, v'', e''\<lparr>currentController := currentController e_later,
                                 currentComputation := currentComputation e_later\<rparr>))))"
proof -
  have construct: "Blaze_Var fns this (Function n) equalsFn e =
       (case Deps_autorun fns (VarAutorun (currentController e) n)
               (\<lparr>equalsFunc = equalsFn, curValue = JSNull, inited = False,
                 dep = Dependency_new, computation = None\<rparr>, e) of
          (Inl err, self', e') \<Rightarrow> (Inl err, e')
        | (Inr c, self', e') \<Rightarrow>
            (Inr (self'\<lparr>computation := Some c, inited := True\<rparr>), Blaze_wrapAutorun c e'))"
    using assms by (cases this) (simp_all add: Blaze_Var.simps Deps_active_def)
  have first: "Deps_autorun fns (VarAutorun (currentController e) n) (v0, e) =
       (case fns n
               (v0, e\<lparr>nextId := Suc (nextId e),
                      parent := (parent e)(nextId e \<mapsto> Some p),
                      body := (body e)(nextId e \<mapsto> VarAutorun (currentController e) n),
                      currentComputation := Some (nextId e)\<rparr>) of
          (Inl err, v', e') \<Rightarrow>
            (Inl err, v', e'\<lparr>currentController := currentController e,
                              currentComputation := Some p\<rparr>)
        | (Inr x, v', e') \<Rightarrow>
            (case Var_set x (v', e') of
               (r, v'', e'') \<Rightarrow>
                 (case r of Inl err \<Rightarrow> Inl err | Inr u \<Rightarrow> Inr (nextId e), v'',
                  e''\<lparr>currentController := currentController e,
                      currentComputation := Some p\<rparr>)))" for v0
    using assms
    by (simp add: Deps_autorun_def call_closure_def autorun_func_def
          Blaze_withCurrentController_def split: prod.splits sum.splits)
  have again: "Computation_rerun fns (nextId e) (v, e_later) =
          (case fns n
                  (v, e_later\<lparr>invalidated := invalidated e_later - {nextId e},
                              currentComputation := Some (nextId e),
                              currentController := currentController e\<rparr>) of
             (Inl err, v', e') \<Rightarrow>
               (Inl err, v', e'\<lparr>currentController := currentController e_later,
                                 currentComputation := currentComputation e_later\<rparr>)
           | (Inr x, v', e') \<Rightarrow>
               (case Var_set x (v', e') of
                  (r, v'', e'') \<Rightarrow>
                    (r, v'', e''\<lparr>currentController := currentController e_later,
                                 currentComputation := currentComputation e_later\<rparr>)))"
    if "nextId e \<in> invalidated e_later"
      and "body e_later (nextId e) = Some (VarAutorun (currentController e) n)"
    using that
    by (simp add: Computation_rerun_def call_closure_def autorun_func_def
          Blaze_withCurrentController_def split: prod.splits sum.splits)
  show ?thesis
  proof (intro conjI impI)
    show "Blaze_Var fns this (Function n) equalsFn e =
       (case fns n
               (\<lparr>equalsFunc = equalsFn, curValue = JSNull, inited = False,
                 dep = Dependency_new, computation = None\<rparr>,
                e\<lparr>nextId := Suc (nextId e),
                  parent := (parent e)(nextId e \<mapsto> Some p),
                  body := (body e)(nextId e \<mapsto> VarAutorun (currentController e) n),
                  currentComputation := Some (nextId e),
                  currentController := currentController e\<rparr>) of
          (Inl err, v', e') \<Rightarrow>
            (Inl err, e'\<lparr>currentController := currentController e,
                         currentComputation := Some p\<rparr>)
        | (Inr x, v', e') \<Rightarrow>
            (case Var_set x (v', e') of
               (Inl err, v'', e'') \<Rightarrow>
                 (Inl err, e''\<lparr>currentController := currentController e,
                               currentComputation := Some p\<rparr>)
             | (Inr u, v'', e'') \<Rightarrow>
                 (Inr (v''\<lparr>computation := Some (nextId e), inited := True\<rparr>),
                  Blaze_wrapAutorun (nextId e)
                    (e''\<lparr>currentController := currentController e,
                         currentComputation := Some p\<rparr>))))"
      unfolding construct first by (simp split: prod.splits sum.splits)
  next
    assume "nextId e \<in> invalidated e_later \<and>
      body e_later (nextId e) = Some (VarAutorun (currentController e) n)"
    then show "Computation_rerun fns (nextId e) (v, e_later) =
          (case fns n
                  (v, e_later\<lparr>invalidated := invalidated e_later - {nextId e},
                              currentComputation := Some (nextId e),
                              currentController := currentController e\<rparr>) of
             (Inl err, v', e') \<Rightarrow>
               (Inl err, v', e'\<lparr>currentController := currentController e_later,
                                 currentComputation := currentComputation e_later\<rparr>)
           | (Inr x, v', e') \<Rightarrow>
               (case Var_set x (v', e') of
                  (r, v'', e'') \<Rightarrow>
                    (r, v'', e''\<lparr>currentController := currentController e_later,
                                 currentComputation := currentComputation e_later\<rparr>)))"
      using again by simp
  qed
qed

text \<open>
  An initializer that returns the ambient context it sees. Constructed under the context
  \<^verbatim>\<open>'outer'\<close> in computation 1, the Var holds \<^verbatim>\<open>'outer'\<close>, and its computation 2 is nested
  under 1 and keeps the function closed over \<^verbatim>\<open>'outer'\<close>. Later the Var has been set to
  \<^verbatim>\<open>'x'\<close>, computation 2 has been invalidated, no computation is running and the ambient
  context is \<^verbatim>\<open>'other'\<close>: the run the runtime then makes of computation 2, in the state the
  constructor left, sets the Var to \<^verbatim>\<open>'outer'\<close> again and puts the context \<^verbatim>\<open>'other'\<close> back.
\<close>

theorem producer_var_runs_witness:
  "currentComputation running_engine = Some 1 \<and>
   Blaze_Var reading_functions NewInstance (Function 0) None running_engine =
     (Inr \<lparr>equalsFunc = None, curValue = JSString ''outer'', inited = True,
           dep = Dependency_new, computation = Some 2\<rparr>,
      running_engine\<lparr>nextId := 3, parent := (parent running_engine)(2 \<mapsto> Some 1),
                      body := (body running_engine)(2 \<mapsto> VarAutorun (JSString ''outer'') 0),
                      wrapped := {2}\<rparr>) \<and>
   Computation_rerun reading_functions 2
     (\<lparr>equalsFunc = None, curValue = JSString ''x'', inited = True,
       dep = Dependency_new, computation = Some 2\<rparr>,
      (snd (Blaze_Var reading_functions NewInstance (Function 0) None running_engine))
        \<lparr>currentComputation := None, currentController := JSString ''other'',
         invalidated := {2}\<rparr>) =
     (Inr (), \<lparr>equalsFunc = None, curValue = JSString ''outer'', inited = True,
               dep = Dependency_new, computation = Some 2\<rparr>,
      (snd (Blaze_Var reading_functions NewInstance (Function 0) None running_engine))
        \<lparr>currentComputation := None, currentController := JSString ''other'',
         invalidated := {}\<rparr>)"
proof -
  have h: "currentComputation running_engine = Some 1" by (simp add: running_engine_def)
  have made: "Blaze_Var reading_functions NewInstance (Function 0) None running_engine =
     (Inr \<lparr>equalsFunc = None, curValue = JSString ''outer'', inited = True,
           dep = Dependency_new, computation = Some 2\<rparr>,
      running_engine\<lparr>nextId := 3, parent := (parent running_engine)(2 \<mapsto> Some 1),
                      body := (body running_engine)(2 \<mapsto> VarAutorun (JSString ''outer'') 0),
                      wrapped := {2}\<rparr>)"
    using producer_var_runs [OF h, where fns = reading_functions and this = NewInstance
            and n = 0 and equalsFn = None]
    by (simp add: reading_functions_def reads_controller_def running_engine_def
          Blaze_wrapAutorun_def Var_set_def Dependency_changed_def Dependency_new_def)
  let ?later = "running_engine\<lparr>nextId := 3, parent := (parent running_engine)(2 \<mapsto> Some 1),
                  body := (body running_engine)(2 \<mapsto> VarAutorun (JSString ''outer'') 0),
                  wrapped := {2}, currentComputation := None,
                  currentController := JSString ''other'', invalidated := {2}\<rparr>"
  have rerun: "Computation_rerun reading_functions 2
     (\<lparr>equalsFunc = None, curValue = JSString ''x'', inited = True,
       dep = Dependency_new, computation = Some 2\<rparr>, ?later) =
     (Inr (), \<lparr>equalsFunc = None, curValue = JSString ''outer'', inited = True,
               dep = Dependency_new, computation = Some 2\<rparr>, ?later\<lparr>invalidated := {}\<rparr>)"
    using producer_var_runs [OF h, where fns = reading_functions and this = NewInstance
            and n = 0 and equalsFn = None and e_later = ?later
            and v = "\<lparr>equalsFunc = None, curValue = JSString ''x'', inited = True,
                      dep = Dependency_new, computation = Some 2\<rparr>"]
    by (simp add: reading_functions_def reads_controller_def running_engine_def
          Var_set_def Dependency_changed_def Dependency_new_def)
  from h made rerun show ?thesis
    by (simp add: running_engine_def)
qed

text \<open>
  C8. Called with a value \<open>v0\<close> that is not a function, with or without \<^verbatim>\<open>new\<close> and with
  any comparator or none, the constructor does not throw and returns the Var that holds
  \<open>v0\<close>, is inited, has nobody registered and no computation; the comparator plays no part
  in the result, and the runtime is left as it was. On that Var without comparator, a later
  \<^verbatim>\<open>set(v0)\<close> with \<^verbatim>\<open>v0 === v0\<close> does nothing, whoever has read the Var in between.
\<close>

theorem plain_var_constructed:
  "Blaze_Var fns this (NonFunction v0) equalsFn e =
     (Inr \<lparr>equalsFunc = equalsFn, curValue = v0, inited = True, dep = Dependency_new,
           computation = None\<rparr>, e) \<and>
   (strict_equals v0 v0 \<longrightarrow>
      Var_set v0 (\<lparr>equalsFunc = None, curValue = v0, inited = True, dep = d,
                    computation = None\<rparr>, e') =
        (Inr (), \<lparr>equalsFunc = None, curValue = v0, inited = True, dep = d,
                    computation = None\<rparr>, e'))"
  by (cases this) (simp_all add: Blaze_Var.simps Var_set_def Dependency_changed_def Dependency_new_def)

theorem plain_var_constructed_witness:
  "Blaze_Var reading_functions NewInstance (NonFunction (JSNumber (Finite 1)))
       (Some equals_throws) idle_engine =
     (Inr \<lparr>equalsFunc = Some equals_throws, curValue = JSNumber (Finite 1), inited = True,
           dep = Dependency_new, computation = None\<rparr>, idle_engine) \<and>
   strict_equals (JSNumber (Finite 1)) (JSNumber (Finite 1)) \<and>
   Var_set (JSNumber (Finite 1)) (read_by_1 (JSNumber (Finite 1)) None, running_engine) =
     (Inr (), read_by_1 (JSNumber (Finite 1)) None, running_engine)"
  using plain_var_constructed [of reading_functions NewInstance "JSNumber (Finite 1)"
          "Some equals_throws"
          idle_engine "\<lparr>dependents = {1}\<rparr>" running_engine]
  by (simp add: read_by_1_def)

text \<open>
  C9. \<^verbatim>\<open>toString\<close> changes the state exactly as \<^verbatim>\<open>get\<close> does, so a computation that is
  running becomes registered in the Dependency of the Var, and it returns the string
  \<^verbatim>\<open>Var{\<close>, the string form of the stored value, \<^verbatim>\<open>}\<close>. When the conversion of the value to a
  string throws, \<^verbatim>\<open>toString\<close> throws the same exception.
\<close>

theorem toString_format:
  "Var_toString str (this, e) =
     (case str (curValue this) of
        Inl err \<Rightarrow> Inl err
      | Inr t \<Rightarrow> Inr (''Var{'' @ t @ ''}''),
      snd (Var_get (this, e))) \<and>
   (\<forall>c. currentComputation e = Some c \<longrightarrow>
      c \<in> dependents (dep (fst (snd (Var_toString str (this, e))))))"
  by (auto simp add: Var_toString_def Var_get_def Deps_active_def Dependency_depend_def split: sum.splits)

theorem toString_format_witness:
  "Var_toString string_table (read_by_1 (JSString ''x'') None,
       running_engine\<lparr>currentComputation := Some 5\<rparr>) =
     (Inr ''Var{x}'', (read_by_1 (JSString ''x'') None)\<lparr>dep := \<lparr>dependents = {5, 1}\<rparr>\<rparr>,
      running_engine\<lparr>currentComputation := Some 5\<rparr>) \<and>
   5 \<in> dependents (dep (fst (snd (Var_toString string_table
         (read_by_1 (JSString ''x'') None, running_engine\<lparr>currentComputation := Some 5\<rparr>)))))"
  using toString_format [of string_table "read_by_1 (JSString ''x'') None"
          "running_engine\<lparr>currentComputation := Some 5\<rparr>"]
  by (simp add: read_by_1_def running_engine_def Var_get_def Deps_active_def
        Dependency_depend_def)

text \<open>
  C10. A plain call \<^verbatim>\<open>Blaze.Var(initializer, equalsFunc)\<close> gives what
  \<^verbatim>\<open>new Blaze.Var(initializer, equalsFunc)\<close> gives in the same state of the runtime: the same
  Var or the same exception, and the same state of the runtime afterwards.
\<close>

theorem call_without_new:
  "Blaze_Var fns NotAnInstance initializer equalsFn e =
     Blaze_Var fns NewInstance initializer equalsFn e"
  by (subst Blaze_Var.simps) simp

theorem call_without_new_witness:
  "Blaze_Var reading_functions NotAnInstance (NonFunction (JSString ''a'')) None idle_engine =
     Blaze_Var reading_functions NewInstance (NonFunction (JSString ''a'')) None idle_engine \<and>
   Blaze_Var reading_functions NotAnInstance (NonFunction (JSString ''a'')) None idle_engine =
     (Inr \<lparr>equalsFunc = None, curValue = JSString ''a'', inited = True,
           dep = Dependency_new, computation = None\<rparr>, idle_engine)"
  using call_without_new [of reading_functions "NonFunction (JSString ''a'')" None idle_engine]
  by (simp add: Blaze_Var.simps Var_set_def Dependency_changed_def Dependency_new_def)

end
